theory Spec2Isabelle
  imports Complex_Main
begin

section \<open>HiPS tile metadata: data model\<close>

text \<open>
  The class \<^verbatim>\<open>HipsTileMeta\<close> of \<^verbatim>\<open>hips/tiles/tile_meta.py\<close> stores its five
  constructor arguments verbatim. Python's unbounded \<^verbatim>\<open>int\<close> is \<^typ>\<open>int\<close>, \<^verbatim>\<open>str\<close> is
  \<^typ>\<open>string\<close>.
\<close>

record HipsTileMeta =
  order :: int
  ipix :: int
  file_format :: string
  frame :: string
  tile_width :: int

text \<open>
  \<^verbatim>\<open>__init__(self, order, ipix, file_format, frame='galactic', tile_width=512)\<close>:
  an omitted optional argument is \<open>None\<close> here and takes the default of the signature.
\<close>

definition init :: "int \<Rightarrow> int \<Rightarrow> string \<Rightarrow> string option \<Rightarrow> int option \<Rightarrow> HipsTileMeta" where
  "init order_arg ipix_arg file_format_arg frame_arg tile_width_arg =
     \<lparr>order = order_arg,
      ipix = ipix_arg,
      file_format = file_format_arg,
      frame = (case frame_arg of None \<Rightarrow> ''galactic'' | Some f \<Rightarrow> f),
      tile_width = (case tile_width_arg of None \<Rightarrow> 512 | Some w \<Rightarrow> w)\<rparr>"

text \<open>
  Exceptions are values. \<open>AttributeError\<close> carries the name of the attribute that is
  missing, \<open>ValueError\<close> is what numpy raises on an impossible reshape, and
  \<open>LibraryError\<close> stands for whatever one of the external libraries raises.
\<close>

datatype error = AttributeError string | ValueError | LibraryError string

section \<open>Equality\<close>

text \<open>
  \<^verbatim>\<open>__eq__\<close> takes any object as its right operand: the annotation is not checked.
  An object is the association list of its attributes. An attribute holds an integer, a
  string, a boolean, a finite float (idealised as a real), \<^verbatim>\<open>None\<close>, or some other
  object that keeps the default equality by identity.
\<close>

datatype pyval = PyInt int | PyStr string | PyBool bool | PyFloat real | PyNone | PyObject nat

text \<open>
  Python's \<^verbatim>\<open>==\<close> on these values: numbers compare by value, a boolean counting as 0 or
  1; strings compare with strings; everything else is equal to itself only.
\<close>

definition number :: "pyval \<Rightarrow> real option" where
  "number v =
     (case v of
        PyInt i \<Rightarrow> Some (real_of_int i)
      | PyBool b \<Rightarrow> Some (if b then 1 else 0)
      | PyFloat x \<Rightarrow> Some x
      | _ \<Rightarrow> None)"

definition py_eq :: "pyval \<Rightarrow> pyval \<Rightarrow> bool" where
  "py_eq v w =
     (case (number v, number w) of
        (Some x, Some y) \<Rightarrow> x = y
      | (None, None) \<Rightarrow> v = w
      | _ \<Rightarrow> False)"

type_synonym pyobj = "(string \<times> pyval) list"

definition getattr :: "pyobj \<Rightarrow> string \<Rightarrow> error + pyval" where
  "getattr obj name =
     (case map_of obj name of None \<Rightarrow> Inl (AttributeError name) | Some v \<Rightarrow> Inr v)"

text \<open>The attributes an instance of \<^verbatim>\<open>HipsTileMeta\<close> carries, in the order \<^verbatim>\<open>__init__\<close> sets them.\<close>

definition attrs :: "HipsTileMeta \<Rightarrow> pyobj" where
  "attrs t =
     [(''order'', PyInt (order t)),
      (''ipix'', PyInt (ipix t)),
      (''file_format'', PyStr (file_format t)),
      (''frame'', PyStr (frame t)),
      (''tile_width'', PyInt (tile_width t))]"

text \<open>
  \<^verbatim>\<open>
  def __eq__(self, other):
      return (self.order == other.order and self.ipix == other.ipix and
              self.file_format == other.file_format and
              self.tile_width == other.tile_width)
  \<close>
  The chain of \<^verbatim>\<open>and\<close> evaluates left to right and stops at the first comparison
  that is false; an attribute of \<^verbatim>\<open>other\<close> is read only when its comparison is
  reached.
\<close>

definition eq :: "HipsTileMeta \<Rightarrow> pyobj \<Rightarrow> error + bool" where
  "eq self other =
     (case getattr other ''order'' of Inl e \<Rightarrow> Inl e | Inr v1 \<Rightarrow>
      if \<not> py_eq (PyInt (order self)) v1 then Inr False else
     (case getattr other ''ipix'' of Inl e \<Rightarrow> Inl e | Inr v2 \<Rightarrow>
      if \<not> py_eq (PyInt (ipix self)) v2 then Inr False else
     (case getattr other ''file_format'' of Inl e \<Rightarrow> Inl e | Inr v3 \<Rightarrow>
      if \<not> py_eq (PyStr (file_format self)) v3 then Inr False else
     (case getattr other ''tile_width'' of Inl e \<Rightarrow> Inl e | Inr v4 \<Rightarrow>
      Inr (py_eq (PyInt (tile_width self)) v4)))))"

text \<open>How an object stands to one attribute of the tile: it lacks it, or has it with an equal or an unequal value.\<close>

definition lacks :: "pyobj \<Rightarrow> string \<Rightarrow> bool" where
  "lacks other name = (map_of other name = None)"

definition has_equal :: "pyobj \<Rightarrow> string \<Rightarrow> pyval \<Rightarrow> bool" where
  "has_equal other name v = (case map_of other name of None \<Rightarrow> False | Some w \<Rightarrow> py_eq v w)"

definition has_unequal :: "pyobj \<Rightarrow> string \<Rightarrow> pyval \<Rightarrow> bool" where
  "has_unequal other name v = (case map_of other name of None \<Rightarrow> False | Some w \<Rightarrow> \<not> py_eq v w)"

section \<open>Paths and file names\<close>

text \<open>
  A \<^verbatim>\<open>pathlib.Path\<close> is kept as the list of segments it was built from:
  \<^verbatim>\<open>Path(a, b) / c\<close> and \<^verbatim>\<open>Path(a, b, c)\<close> are the same path.
\<close>

datatype pure_path = Path "string list"

fun truediv :: "pure_path \<Rightarrow> string \<Rightarrow> pure_path" where
  "truediv (Path segs) s = Path (segs @ [s])"

text \<open>\<^verbatim>\<open>str\<close> of a Python integer: decimal digits, most significant first, \<^verbatim>\<open>-\<close> before a negative one.\<close>

definition digit_char :: "nat \<Rightarrow> char" where
  "digit_char d = ''0123456789'' ! d"

fun str_nat :: "nat \<Rightarrow> string" where
  "str_nat n = (if n < 10 then [digit_char n] else str_nat (n div 10) @ [digit_char (n mod 10)])"

declare str_nat.simps [simp del]

definition str_int :: "int \<Rightarrow> string" where
  "str_int i = (if i < 0 then CHR ''-'' # str_nat (nat (- i)) else str_nat (nat i))"

text \<open>The value a string of decimal digits denotes, to say what \<open>str_int\<close> renders.\<close>

definition digit_value :: "char \<Rightarrow> nat" where
  "digit_value c = of_char c - 48"

definition decimal_value :: "string \<Rightarrow> nat" where
  "decimal_value s = foldl (\<lambda>acc c. 10 * acc + digit_value c) 0 s"

definition int_of_str :: "string \<Rightarrow> int" where
  "int_of_str s =
     (case s of
        [] \<Rightarrow> 0
      | c # cs \<Rightarrow> if c = CHR ''-'' then - int (decimal_value cs) else int (decimal_value s))"

text \<open>\<^verbatim>\<open>sep.join(parts)\<close>.\<close>

fun join :: "string \<Rightarrow> string list \<Rightarrow> string" where
  "join sep [] = []"
| "join sep [p] = p"
| "join sep (p # ps) = p @ sep @ join sep ps"

text \<open>\<^verbatim>\<open>return Path('hips', 'tiles', 'tests', 'data')\<close>\<close>

definition path :: "HipsTileMeta \<Rightarrow> pure_path" where
  "path self = Path [''hips'', ''tiles'', ''tests'', ''data'']"

text \<open>\<^verbatim>\<open>return ''.join(['Npix', str(self.ipix), '.', self.file_format])\<close>\<close>

definition filename :: "HipsTileMeta \<Rightarrow> string" where
  "filename self = join '''' [''Npix'', str_int (ipix self), ''.'', file_format self]"

text \<open>\<^verbatim>\<open>return self.path / self.filename\<close>\<close>

definition full_path :: "HipsTileMeta \<Rightarrow> pure_path" where
  "full_path self = truediv (path self) (filename self)"

section \<open>Destination quad\<close>

text \<open>
  A two-dimensional array is the list of its rows. \<^verbatim>\<open>np.array\<close> of nested lists of
  Python integers chooses the element type from the values. An integer that fits a signed
  64-bit word counts as \<^verbatim>\<open>int64\<close> (numpy's default integer on 64-bit Linux and
  macOS), one from \<open>2\<^sup>6\<^sup>3\<close> to \<open>2\<^sup>6\<^sup>4 - 1\<close> as \<^verbatim>\<open>uint64\<close>, any other stays a
  Python object. Entries of one type give an array of that type; an
  object among them gives an array of objects; \<^verbatim>\<open>int64\<close> and \<^verbatim>\<open>uint64\<close> together
  have no common integer type and give \<^verbatim>\<open>float64\<close>.
\<close>

datatype dtype = Int64 | UInt64 | Float64 | Object

definition int_dtype :: "int \<Rightarrow> dtype" where
  "int_dtype x =
     (if - (2 ^ 63) \<le> x \<and> x < 2 ^ 63 then Int64
      else if 2 ^ 63 \<le> x \<and> x < 2 ^ 64 then UInt64
      else Object)"

definition promote :: "dtype \<Rightarrow> dtype \<Rightarrow> dtype" where
  "promote a b =
     (if a = Object \<or> b = Object then Object
      else if a = b then a
      else Float64)"

definition result_dtype :: "int list \<Rightarrow> dtype" where
  "result_dtype xs =
     (case xs of [] \<Rightarrow> Float64 | x # rest \<Rightarrow> foldl promote (int_dtype x) (map int_dtype rest))"

text \<open>
  An integer stored as \<^verbatim>\<open>float64\<close> is rounded to 53 significant bits, to the nearest,
  ties to even. \<open>ulp n\<close> is the distance between the floats around \<open>n\<close>. (Integers
  beyond the range of \<^verbatim>\<open>float64\<close> never come here: they are objects.)
\<close>

fun ulp :: "nat \<Rightarrow> nat" where
  "ulp n = (if n < 2 ^ 53 then 1 else 2 * ulp (n div 2))"

declare ulp.simps [simp del]

definition float64_of_int :: "int \<Rightarrow> real" where
  "float64_of_int x =
     (let n = nat \<bar>x\<bar>; u = ulp n; q = n div u; r = n mod u;
          m = (if 2 * r < u \<or> (2 * r = u \<and> even q) then q else q + 1)
      in real_of_int (sgn x * int (m * u)))"

datatype ndarray =
    Int64Array "int list list"
  | UInt64Array "int list list"
  | Float64Array "real list list"
  | ObjectArray "int list list"

definition np_array_ints :: "int list list \<Rightarrow> ndarray" where
  "np_array_ints rows =
     (case result_dtype (concat rows) of
        Int64 \<Rightarrow> Int64Array rows
      | UInt64 \<Rightarrow> UInt64Array rows
      | Float64 \<Rightarrow> Float64Array (map (map float64_of_int) rows)
      | Object \<Rightarrow> ObjectArray rows)"

text \<open>The numbers an array holds, whatever its element type.\<close>

definition entries :: "ndarray \<Rightarrow> real list list" where
  "entries a =
     (case a of
        Int64Array rows \<Rightarrow> map (map real_of_int) rows
      | UInt64Array rows \<Rightarrow> map (map real_of_int) rows
      | Float64Array rows \<Rightarrow> rows
      | ObjectArray rows \<Rightarrow> map (map real_of_int) rows)"

text \<open>
  \<^verbatim>\<open>
  return np.array([[self.tile_width - 1, 0],
                   [self.tile_width - 1, self.tile_width - 1],
                   [0, self.tile_width - 1],
                   [0, 0]])
  \<close>
\<close>

definition dst :: "HipsTileMeta \<Rightarrow> ndarray" where
  "dst self =
     np_array_ints
       [[tile_width self - 1, 0],
        [tile_width self - 1, tile_width self - 1],
        [0, tile_width self - 1],
        [0, 0]]"

section \<open>External libraries\<close>

text \<open>
  healpy, astropy and scikit-image are not part of the repository: the functions the
  code calls from them are parameters, collected in one record. Each returns either the
  exception it raises or its value. A float is idealised as a \<^typ>\<open>real\<close> (rounding is
  not modelled), a one-dimensional array is a list, a two-dimensional array the list of
  its rows. The objects of the libraries (\<^verbatim>\<open>SkyCoord\<close>, \<^verbatim>\<open>WCS\<close>,
  \<^verbatim>\<open>ProjectiveTransform\<close>) are type parameters.
\<close>

datatype kwarg = Array "real list" | Str string

record ('sc, 'wcs, 'tf) libraries =
  hp_order2nside :: "int \<Rightarrow> error + int"
  hp_boundaries :: "int \<Rightarrow> int \<Rightarrow> bool \<Rightarrow> error + real list list"
  hp_vec2ang :: "real list list \<Rightarrow> error + real list \<times> real list"
  SkyCoord :: "(string \<times> kwarg) list \<Rightarrow> error + 'sc"
  to_pixel :: "'sc \<Rightarrow> 'wcs \<Rightarrow> error + real list \<times> real list"
  estimate :: "real list list \<Rightarrow> ndarray \<Rightarrow> error + bool \<times> 'tf"

text \<open>
  \<open>estimate L src dst\<close> is \<^verbatim>\<open>pt = tf.ProjectiveTransform(); pt.estimate(src, dst)\<close>:
  the value the call returns, and the transform \<^verbatim>\<open>pt\<close> as the call leaves it.
\<close>

subsection \<open>numpy\<close>

definition shape :: "'a list list \<Rightarrow> nat \<times> nat \<Rightarrow> bool" where
  "shape a s = (length a = fst s \<and> list_all (\<lambda>row. length row = snd s) a)"

text \<open>\<^verbatim>\<open>np.transpose\<close> of a two-dimensional array; every row of an array has the length of the first.\<close>

definition np_transpose :: "'a list list \<Rightarrow> 'a list list" where
  "np_transpose a =
     (case a of [] \<Rightarrow> [] | r # _ \<Rightarrow> map (\<lambda>j. map (\<lambda>row. row ! j) a) [0..<length r])"

text \<open>\<^verbatim>\<open>np.array(corners)\<close> of a pair of one-dimensional arrays: two rows, of one length.\<close>

definition np_array :: "'a list \<times> 'a list \<Rightarrow> error + 'a list list" where
  "np_array corners =
     (if length (fst corners) = length (snd corners) then Inr [fst corners, snd corners]
      else Inl ValueError)"

text \<open>\<^verbatim>\<open>a.reshape((r, c))\<close>: the elements in row-major order, regrouped; an error when their number is not \<open>r * c\<close>.\<close>

definition reshape :: "'a list list \<Rightarrow> nat \<times> nat \<Rightarrow> error + 'a list list" where
  "reshape a s =
     (let flat = concat a in
      if length flat = fst s * snd s
      then Inr (map (\<lambda>i. take (snd s) (drop (i * snd s) flat)) [0..<fst s])
      else Inl ValueError)"

section \<open>HEALPix wrapper\<close>

text \<open>
  \<^verbatim>\<open>
  def boundaries(nside, pix, nest=False):
      boundary_coords = healpy.boundaries(nside, pix, nest=nest)
      theta, phi = healpy.vec2ang(np.transpose(boundary_coords))
      return theta, phi
  \<close>
  An omitted \<^verbatim>\<open>nest\<close> is \<open>None\<close>.
\<close>

definition boundaries ::
  "('sc, 'wcs, 'tf) libraries \<Rightarrow> int \<Rightarrow> int \<Rightarrow> bool option \<Rightarrow> error + real list \<times> real list" where
  "boundaries L nside_arg pix nest_arg =
     (let nest = (case nest_arg of None \<Rightarrow> False | Some b \<Rightarrow> b) in
      case hp_boundaries L nside_arg pix nest of
        Inl e \<Rightarrow> Inl e
      | Inr boundary_coords \<Rightarrow>
          (case hp_vec2ang L (np_transpose boundary_coords) of
             Inl e \<Rightarrow> Inl e
           | Inr (theta, phi) \<Rightarrow> Inr (theta, phi)))"

section \<open>Derived properties that call the libraries\<close>

text \<open>\<^verbatim>\<open>return hp.order2nside(self.order)\<close>\<close>

definition nside :: "('sc, 'wcs, 'tf) libraries \<Rightarrow> HipsTileMeta \<Rightarrow> error + int" where
  "nside L self = hp_order2nside L (order self)"

text \<open>
  \<^verbatim>\<open>
  theta, phi = boundaries(self.nside, self.ipix)
  if self.frame == 'galactic':
      return SkyCoord(l=phi, b=np.pi / 2 - theta, unit='radian', frame=self.frame)
  else:
      return SkyCoord(ra=phi, dec=np.pi / 2 - theta, unit='radian', frame=self.frame)
  \<close>
\<close>

definition skycoord_corners ::
  "('sc, 'wcs, 'tf) libraries \<Rightarrow> HipsTileMeta \<Rightarrow> error + 'sc" where
  "skycoord_corners L self =
     (case nside L self of
        Inl e \<Rightarrow> Inl e
      | Inr n \<Rightarrow>
          (case boundaries L n (ipix self) None of
             Inl e \<Rightarrow> Inl e
           | Inr (theta, phi) \<Rightarrow>
               if frame self = ''galactic''
               then SkyCoord L [(''l'', Array phi),
                                (''b'', Array (map (\<lambda>x. pi / 2 - x) theta)),
                                (''unit'', Str ''radian''),
                                (''frame'', Str (frame self))]
               else SkyCoord L [(''ra'', Array phi),
                                (''dec'', Array (map (\<lambda>x. pi / 2 - x) theta)),
                                (''unit'', Str ''radian''),
                                (''frame'', Str (frame self))]))"

text \<open>
  \<^verbatim>\<open>
  def apply_projection(self, wcs):
      corners = self.skycoord_corners.to_pixel(wcs)
      src = np.array(corners).T.reshape((4, 2))
      dst = self.dst
      pt = tf.ProjectiveTransform()
      pt.estimate(src, dst)
      return pt
  \<close>
  Nothing is caught, and the value \<^verbatim>\<open>estimate\<close> returns is dropped.
\<close>

definition apply_projection ::
  "('sc, 'wcs, 'tf) libraries \<Rightarrow> HipsTileMeta \<Rightarrow> 'wcs \<Rightarrow> error + 'tf" where
  "apply_projection L self wcs =
     (case skycoord_corners L self of
        Inl e \<Rightarrow> Inl e
      | Inr sc \<Rightarrow>
     (case to_pixel L sc wcs of
        Inl e \<Rightarrow> Inl e
      | Inr corners \<Rightarrow>
     (case np_array corners of
        Inl e \<Rightarrow> Inl e
      | Inr arr \<Rightarrow>
     (case reshape (np_transpose arr) (4, 2) of
        Inl e \<Rightarrow> Inl e
      | Inr src \<Rightarrow>
     (case estimate L src (dst self) of
        Inl e \<Rightarrow> Inl e
      | Inr (success, pt) \<Rightarrow> Inr pt)))))"

section \<open>Contracts of the library functions\<close>

text \<open>
  What the library functions return is not in the repository. Where a statement about
  the code needs it, the library's contract is a predicate on the record, in the words of
  the specification of the package.
\<close>

definition unit_vector :: "real list \<Rightarrow> bool" where
  "unit_vector v = (length v = 3 \<and> (\<Sum>x\<leftarrow>v. x\<^sup>2) = 1)"

definition colatitude :: "real \<Rightarrow> bool" where
  "colatitude x = (0 \<le> x \<and> x \<le> pi)"

definition longitude :: "real \<Rightarrow> bool" where
  "longitude x = (0 \<le> x \<and> x < 2 * pi)"

text \<open>
  Modelled from the spec: \<^verbatim>\<open>healpy.order2nside\<close> is a function of healpy, whose code
  is not part of the repository. The spec gives its value: \<open>nside = 2^order\<close>, exactly,
  for every valid \<open>order \<ge> 0\<close>.
\<close>

definition order2nside_spec :: "('sc, 'wcs, 'tf) libraries \<Rightarrow> bool" where
  "order2nside_spec L = (\<forall>k::nat. hp_order2nside L (int k) = Inr (2 ^ k))"

text \<open>
  Modelled from the spec: \<^verbatim>\<open>healpy.boundaries\<close> is a function of healpy, whose code
  is not part of the repository. The spec describes it as
  \<open>pixelBoundaryVectors(nside, pixelIndex, nested) -> 4 unit vectors\<close>, for \<open>nside\<close> a
  power of two, \<open>pixelIndex\<close> in \<open>[0, 12 nside\<^sup>2)\<close> and either ordering scheme. healpy
  returns the vectors as an array of three rows (x, y, z) and four columns, one column
  per corner, which is why the wrapper transposes it.
\<close>

definition boundaries_spec :: "('sc, 'wcs, 'tf) libraries \<Rightarrow> bool" where
  "boundaries_spec L =
     (\<forall>(k::nat) pix nest. 0 \<le> pix \<and> pix < 12 * (2 ^ k)\<^sup>2 \<longrightarrow>
        (\<exists>vs. hp_boundaries L (2 ^ k) pix nest = Inr vs \<and> shape vs (3, 4) \<and>
              list_all unit_vector (np_transpose vs)))"

text \<open>
  Modelled from the spec: \<^verbatim>\<open>healpy.vec2ang\<close> is a function of healpy, whose code is
  not part of the repository. The spec describes it as
  \<open>vectorsToAngles(vectors) -> (theta[], phi[])\<close>, one pair of angles per vector, with
  \<open>theta \<in> [0, \<pi>]\<close> the colatitude from the north pole and \<open>phi \<in> [0, 2\<pi>)\<close> the
  longitude.
\<close>

definition vec2ang_spec :: "('sc, 'wcs, 'tf) libraries \<Rightarrow> bool" where
  "vec2ang_spec L =
     (\<forall>vs. list_all unit_vector vs \<longrightarrow>
        (\<exists>theta phi. hp_vec2ang L vs = Inr (theta, phi) \<and>
           length theta = length vs \<and> length phi = length vs \<and>
           list_all colatitude theta \<and> list_all longitude phi))"

text \<open>
  Four points of the plane, as rows \<open>[x, y]\<close>, are degenerate for a projective transform
  when they lie on one line: every three of them span no area.
\<close>

definition cross :: "real list \<Rightarrow> real list \<Rightarrow> real list \<Rightarrow> real" where
  "cross p q r = (q ! 0 - p ! 0) * (r ! 1 - p ! 1) - (q ! 1 - p ! 1) * (r ! 0 - p ! 0)"

definition collinear :: "real list list \<Rightarrow> bool" where
  "collinear ps = (\<forall>p\<in>set ps. \<forall>q\<in>set ps. \<forall>r\<in>set ps. cross p q r = 0)"


section \<open>A library instance for examples\<close>

text \<open>
  A small instance of the library record, on which the definitions can be run: every
  pixel has its four corners on the x axis, a \<^verbatim>\<open>SkyCoord\<close> is the list of the
  arguments it was built from, \<^verbatim>\<open>to_pixel\<close> reads the two coordinate arrays back, and
  a transform is the pair of point sets it was estimated from.
\<close>

definition example_order2nside :: "int \<Rightarrow> error + int" where
  "example_order2nside k = (if 0 \<le> k then Inr (2 ^ nat k) else Inl (LibraryError ''order''))"

definition example_boundaries :: "int \<Rightarrow> int \<Rightarrow> bool \<Rightarrow> error + real list list" where
  "example_boundaries n p nest =
     (if 0 < n \<and> 0 \<le> p \<and> p < 12 * n * n
      then Inr [[1, 1, 1, 1], [0, 0, 0, 0], [0, 0, 0, 0]]
      else Inl (LibraryError ''pixel''))"

definition example_vec2ang :: "real list list \<Rightarrow> error + real list \<times> real list" where
  "example_vec2ang vs = Inr (map (\<lambda>v. pi / 2) vs, map (\<lambda>v. 0) vs)"

definition example_to_pixel ::
  "(string \<times> kwarg) list \<Rightarrow> unit \<Rightarrow> error + real list \<times> real list" where
  "example_to_pixel sc wcs =
     (case sc of
        (n1, Array xs) # (n2, Array ys) # rest \<Rightarrow> Inr (xs, ys)
      | _ \<Rightarrow> Inl (LibraryError ''coordinates''))"

definition example_libraries ::
  "((string \<times> kwarg) list, unit, real list list \<times> ndarray) libraries" where
  "example_libraries =
     \<lparr>hp_order2nside = example_order2nside,
      hp_boundaries = example_boundaries,
      hp_vec2ang = example_vec2ang,
      SkyCoord = Inr,
      to_pixel = example_to_pixel,
      estimate = (\<lambda>src dst. Inr (True, (src, dst)))\<rparr>"

section \<open>A library instance that checks its arguments\<close>

text \<open>
  A second instance, closer to the libraries. A pixel has four different corners on the
  coordinate axes, in an order that depends on the ordering scheme, and the angles of a
  vector are its spherical angles. A \<^verbatim>\<open>SkyCoord\<close> is built for the frames \<^verbatim>\<open>galactic\<close>
  (from \<^verbatim>\<open>l\<close> and \<^verbatim>\<open>b\<close>) and \<^verbatim>\<open>icrs\<close> (from \<^verbatim>\<open>ra\<close> and \<^verbatim>\<open>dec\<close>) and refused
  for any other frame name, as astropy refuses the name \<^verbatim>\<open>ecliptic\<close>. A \<^verbatim>\<open>WCS\<close> is a
  pair of scale factors. A transform holds the point sets it was estimated from, or no
  number at all after an estimation from collinear points, which returns false.
\<close>

definition axes_boundaries :: "int \<Rightarrow> int \<Rightarrow> bool \<Rightarrow> error + real list list" where
  "axes_boundaries n p nest =
     (if 0 < n \<and> 0 \<le> p \<and> p < 12 * n * n
      then Inr (if nest then [[1, 0, - 1, 0], [0, 1, 0, - 1], [0, 0, 0, 0]]
                else [[0, 1, 0, 0], [0, 0, 0, 1], [1, 0, - 1, 0]])
      else Inl (LibraryError ''pixel''))"

definition sphere_theta :: "real list \<Rightarrow> real" where
  "sphere_theta v = arccos (v ! 2)"

definition sphere_phi :: "real list \<Rightarrow> real" where
  "sphere_phi v =
     (if v ! 0 = 0 \<and> v ! 1 = 0 then 0
      else if 0 \<le> v ! 1 then arccos (v ! 0 / sqrt ((v ! 0)\<^sup>2 + (v ! 1)\<^sup>2))
      else 2 * pi - arccos (v ! 0 / sqrt ((v ! 0)\<^sup>2 + (v ! 1)\<^sup>2)))"

definition sphere_vec2ang :: "real list list \<Rightarrow> error + real list \<times> real list" where
  "sphere_vec2ang vs =
     (if list_all (\<lambda>v. length v = 3) vs then Inr (map sphere_theta vs, map sphere_phi vs)
      else Inl (LibraryError ''vector''))"

record sky =
  sky_frame :: string
  sky_lon :: "real list"
  sky_lat :: "real list"

definition named_arrays :: "(string \<times> kwarg) list \<Rightarrow> string \<Rightarrow> string \<Rightarrow> string \<Rightarrow> error + sky" where
  "named_arrays kwargs f lon_name lat_name =
     (case (map_of kwargs lon_name, map_of kwargs lat_name) of
        (Some (Array lon), Some (Array lat)) \<Rightarrow>
          Inr \<lparr>sky_frame = f, sky_lon = lon, sky_lat = lat\<rparr>
      | _ \<Rightarrow> Inl (LibraryError ''coordinates''))"

definition strict_SkyCoord :: "(string \<times> kwarg) list \<Rightarrow> error + sky" where
  "strict_SkyCoord kwargs =
     (case map_of kwargs ''frame'' of
        Some (Str f) \<Rightarrow>
          if f = ''galactic'' then named_arrays kwargs f ''l'' ''b''
          else if f = ''icrs'' then named_arrays kwargs f ''ra'' ''dec''
          else Inl (LibraryError ''frame'')
      | _ \<Rightarrow> Inl (LibraryError ''frame''))"

definition scale_to_pixel :: "sky \<Rightarrow> real \<times> real \<Rightarrow> error + real list \<times> real list" where
  "scale_to_pixel sc wcs =
     Inr (map (\<lambda>x. fst wcs * x) (sky_lon sc), map (\<lambda>y. snd wcs * y) (sky_lat sc))"

datatype transform = Homography "real list list" ndarray | NaNTransform

definition flagging_estimate :: "real list list \<Rightarrow> ndarray \<Rightarrow> error + bool \<times> transform" where
  "flagging_estimate src dst_arg =
     (if collinear src then Inr (False, NaNTransform) else Inr (True, Homography src dst_arg))"

definition strict_libraries :: "(sky, real \<times> real, transform) libraries" where
  "strict_libraries =
     \<lparr>hp_order2nside = example_order2nside,
      hp_boundaries = axes_boundaries,
      hp_vec2ang = sphere_vec2ang,
      SkyCoord = strict_SkyCoord,
      to_pixel = scale_to_pixel,
      estimate = flagging_estimate\<rparr>"

section \<open>Facts about the model\<close>

subsection \<open>Attributes\<close>

lemma py_eq_same_kind [simp]:
  "py_eq (PyInt a) (PyInt b) = (a = b)"
  "py_eq (PyStr s) (PyStr u) = (s = u)"
  by (simp_all add: py_eq_def number_def)

text \<open>Every object stands to every attribute in one of the three ways.\<close>

lemma attribute_cases:
  "lacks other name \<or> has_unequal other name v \<or> has_equal other name v"
  by (simp add: lacks_def has_equal_def has_unequal_def split: option.splits)

lemma getattr_attrs:
  "getattr (attrs t) ''order'' = Inr (PyInt (order t))"
  "getattr (attrs t) ''ipix'' = Inr (PyInt (ipix t))"
  "getattr (attrs t) ''file_format'' = Inr (PyStr (file_format t))"
  "getattr (attrs t) ''tile_width'' = Inr (PyInt (tile_width t))"
  by (simp_all add: getattr_def attrs_def)

subsection \<open>Decimal rendering\<close>

lemma digit_below_ten: "d < 10 \<Longrightarrow> d \<in> {0, 1, 2, 3, 4, 5, 6, 7, 8, 9::nat}"
  by auto

lemma digit_value_digit_char: "d < 10 \<Longrightarrow> digit_value (digit_char d) = d"
  by (drule digit_below_ten) (auto simp: digit_value_def digit_char_def)

lemma digit_char_not_minus: "d < 10 \<Longrightarrow> digit_char d \<noteq> CHR ''-''"
  by (drule digit_below_ten) (auto simp: digit_char_def)

lemma decimal_value_snoc: "decimal_value (s @ [c]) = 10 * decimal_value s + digit_value c"
  by (simp add: decimal_value_def)

lemma str_nat_nonempty: "str_nat n \<noteq> []"
  by (subst str_nat.simps) simp

lemma decimal_value_str_nat: "decimal_value (str_nat n) = n"
proof (induction n rule: str_nat.induct)
  case (1 n)
  show ?case
  proof (cases "n < 10")
    case True
    then show ?thesis
      by (simp add: str_nat.simps decimal_value_def digit_value_digit_char)
  next
    case False
    with 1 show ?thesis
      by (subst str_nat.simps) (simp add: decimal_value_snoc digit_value_digit_char)
  qed
qed

lemma hd_str_nat: "hd (str_nat n) \<noteq> CHR ''-''"
proof (induction n rule: str_nat.induct)
  case (1 n)
  show ?case
  proof (cases "n < 10")
    case True
    then show ?thesis by (simp add: str_nat.simps digit_char_not_minus)
  next
    case False
    with 1 show ?thesis
      by (subst str_nat.simps) (simp add: str_nat_nonempty)
  qed
qed

lemma int_of_str_str_int: "int_of_str (str_int i) = i"
proof (cases "i < 0")
  case True
  then show ?thesis
    by (simp add: int_of_str_def str_int_def decimal_value_str_nat)
next
  case False
  obtain c cs where s: "str_nat (nat i) = c # cs"
    using str_nat_nonempty [of "nat i"] by (cases "str_nat (nat i)") auto
  have "c \<noteq> CHR ''-''"
    using hd_str_nat [of "nat i"] s by simp
  moreover have "decimal_value (c # cs) = nat i"
    using decimal_value_str_nat [of "nat i"] s by simp
  ultimately show ?thesis
    using False s by (simp add: int_of_str_def str_int_def)
qed

lemma str_int_450: "str_int 450 = ''450''"
  by (simp add: str_int_def str_nat.simps digit_char_def)

subsection \<open>Arrays\<close>

lemma np_transpose_3x4:
  "np_transpose [[a0, a1, a2, a3], [b0, b1, b2, b3], [c0, c1, c2, c3]] =
     [[a0, b0, c0], [a1, b1, c1], [a2, b2, c2], [a3, b3, c3]]"
  by (simp add: np_transpose_def upt_rec)

lemma np_transpose_2x4:
  "np_transpose [[x0, x1, x2, x3], [y0, y1, y2, y3]] =
     [[x0, y0], [x1, y1], [x2, y2], [x3, y3]]"
  by (simp add: np_transpose_def upt_rec)

lemma reshape_4x2:
  "reshape [[x0, y0], [x1, y1], [x2, y2], [x3, y3]] (4, 2) =
     Inr [[x0, y0], [x1, y1], [x2, y2], [x3, y3]]"
  by (simp add: reshape_def upt_rec)

lemma shape_3x4:
  assumes "shape vs (3, 4)"
  obtains r0 r1 r2 where "vs = [r0, r1, r2]" "length r0 = 4" "length r1 = 4" "length r2 = 4"
proof -
  from assms have "length vs = 3" and rows: "list_all (\<lambda>row. length row = 4) vs"
    by (simp_all add: shape_def)
  then obtain r0 r1 r2 where "vs = [r0, r1, r2]"
    by (auto simp: length_Suc_conv numeral_3_eq_3)
  with rows that show thesis by simp
qed

text \<open>Transposing three rows of four gives the four columns, each a vector (x, y, z).\<close>

lemma np_transpose_shape_3x4:
  assumes "shape vs (3, 4)"
  shows "np_transpose vs = map (\<lambda>j. [vs ! 0 ! j, vs ! 1 ! j, vs ! 2 ! j]) [0..<4]"
proof -
  from assms obtain r0 r1 r2 where "vs = [r0, r1, r2]" "length r0 = 4"
    by (rule shape_3x4)
  then show ?thesis by (simp add: np_transpose_def)
qed



subsection \<open>Element types of the destination quad\<close>

lemma int_dtype_zero: "int_dtype 0 = Int64"
  by (simp add: int_dtype_def)

lemma result_dtype_quad:
  "result_dtype (concat [[a, 0], [a, a], [0, a], [0, 0]]) = promote (int_dtype a) Int64"
  by (cases "int_dtype a") (simp_all add: result_dtype_def int_dtype_zero promote_def)

lemma float64_of_int_zero: "float64_of_int 0 = 0"
  by (simp add: float64_of_int_def ulp.simps)

lemma dst_cases:
  "dst t =
     (let a = tile_width t - 1 in
      case int_dtype a of
        Int64 \<Rightarrow> Int64Array [[a, 0], [a, a], [0, a], [0, 0]]
      | UInt64 \<Rightarrow> Float64Array [[float64_of_int a, 0], [float64_of_int a, float64_of_int a],
                                 [0, float64_of_int a], [0, 0]]
      | Float64 \<Rightarrow> Float64Array [[float64_of_int a, 0], [float64_of_int a, float64_of_int a],
                                  [0, float64_of_int a], [0, 0]]
      | Object \<Rightarrow> ObjectArray [[a, 0], [a, a], [0, a], [0, 0]])"
  unfolding dst_def np_array_ints_def result_dtype_quad Let_def
  by (cases "int_dtype (tile_width t - 1)") (simp_all add: promote_def float64_of_int_zero)

lemma dst_512:
  "tile_width t = 512 \<Longrightarrow> dst t = Int64Array [[511, 0], [511, 511], [0, 511], [0, 0]]"
  by (simp add: dst_cases int_dtype_def)

text \<open>Around \<open>2\<^sup>6\<^sup>3\<close> the floats are 2048 apart.\<close>

lemma ulp_2_63: "ulp 9223372036854775809 = 2048"
  by (simp add: ulp.simps)

lemma float64_2_63: "float64_of_int 9223372036854775809 = 9223372036854775808"
  by (simp add: float64_of_int_def ulp_2_63)

subsection \<open>The example instance\<close>

lemma example_fields [simp]:
  "hp_order2nside example_libraries = example_order2nside"
  "hp_boundaries example_libraries = example_boundaries"
  "hp_vec2ang example_libraries = example_vec2ang"
  "SkyCoord example_libraries = Inr"
  "to_pixel example_libraries = example_to_pixel"
  "estimate example_libraries = (\<lambda>src dst. Inr (True, (src, dst)))"
  by (simp_all add: example_libraries_def)

lemma example_order2nside_spec: "order2nside_spec example_libraries"
  by (simp add: order2nside_spec_def example_order2nside_def)

lemma example_boundaries_spec: "boundaries_spec example_libraries"
  by (simp add: boundaries_spec_def example_boundaries_def shape_def np_transpose_3x4
      unit_vector_def power2_eq_square)

lemma example_vec2ang_spec: "vec2ang_spec example_libraries"
  by (simp add: vec2ang_spec_def example_vec2ang_def list_all_iff colatitude_def longitude_def)

lemma example_nside_3: "order t = 3 \<Longrightarrow> nside example_libraries t = Inr 8"
  by (simp add: nside_def example_order2nside_def)

lemma example_boundaries_8_450:
  "boundaries example_libraries 8 450 nest =
     Inr ([pi / 2, pi / 2, pi / 2, pi / 2], [0, 0, 0, 0])"
  by (simp add: boundaries_def example_boundaries_def example_vec2ang_def np_transpose_3x4)

subsection \<open>Exceptions pass through\<close>

text \<open>
  \<^verbatim>\<open>boundaries\<close>, \<^verbatim>\<open>skycoord_corners\<close> and \<^verbatim>\<open>apply_projection\<close> catch nothing: what
  a library call raises is what the caller sees. \<^verbatim>\<open>apply_projection\<close> returns the
  transform whatever value \<^verbatim>\<open>estimate\<close> returned.
\<close>

lemma boundaries_raises:
  "hp_boundaries L n p (case nest of None \<Rightarrow> False | Some b \<Rightarrow> b) = Inl e \<Longrightarrow>
     boundaries L n p nest = Inl e"
  "hp_boundaries L n p (case nest of None \<Rightarrow> False | Some b \<Rightarrow> b) = Inr vs \<Longrightarrow>
     hp_vec2ang L (np_transpose vs) = Inl e \<Longrightarrow> boundaries L n p nest = Inl e"
  by (simp_all add: boundaries_def)

lemma skycoord_corners_raises:
  "nside L t = Inl e \<Longrightarrow> skycoord_corners L t = Inl e"
  "nside L t = Inr n \<Longrightarrow> boundaries L n (ipix t) None = Inl e \<Longrightarrow> skycoord_corners L t = Inl e"
  by (simp_all add: skycoord_corners_def)

lemma skycoord_corners_call:
  assumes "nside L t = Inr n" and "boundaries L n (ipix t) None = Inr (theta, phi)"
  shows "skycoord_corners L t =
           (if frame t = ''galactic''
            then SkyCoord L [(''l'', Array phi), (''b'', Array (map (\<lambda>x. pi / 2 - x) theta)),
                             (''unit'', Str ''radian''), (''frame'', Str (frame t))]
            else SkyCoord L [(''ra'', Array phi), (''dec'', Array (map (\<lambda>x. pi / 2 - x) theta)),
                             (''unit'', Str ''radian''), (''frame'', Str (frame t))])"
  using assms by (simp add: skycoord_corners_def)

lemma apply_projection_raises:
  "skycoord_corners L t = Inl e \<Longrightarrow> apply_projection L t wcs = Inl e"
  "skycoord_corners L t = Inr sc \<Longrightarrow> to_pixel L sc wcs = Inl e \<Longrightarrow>
     apply_projection L t wcs = Inl e"
  by (simp_all add: apply_projection_def)

lemma apply_projection_estimate:
  assumes "skycoord_corners L t = Inr sc" and "to_pixel L sc wcs = Inr corners"
    and "np_array corners = Inr arr" and "reshape (np_transpose arr) (4, 2) = Inr src"
  shows "estimate L src (dst t) = Inl e \<Longrightarrow> apply_projection L t wcs = Inl e"
    and "estimate L src (dst t) = Inr (success, pt) \<Longrightarrow> apply_projection L t wcs = Inr pt"
  using assms by (simp_all add: apply_projection_def)


lemma apply_projection_example:
  "apply_projection example_libraries (init 3 450 ''fits'' None None) () =
     Inr ([[0, 0], [0, 0], [0, 0], [0, 0]],
          Int64Array [[511, 0], [511, 511], [0, 511], [0, 0]])"
  by (simp add: apply_projection_def skycoord_corners_def example_nside_3 init_def
      example_boundaries_8_450 example_to_pixel_def np_array_def np_transpose_2x4
      reshape_4x2 dst_512)

subsection \<open>The instance that checks its arguments\<close>

lemma strict_fields [simp]:
  "hp_order2nside strict_libraries = example_order2nside"
  "hp_boundaries strict_libraries = axes_boundaries"
  "hp_vec2ang strict_libraries = sphere_vec2ang"
  "SkyCoord strict_libraries = strict_SkyCoord"
  "to_pixel strict_libraries = scale_to_pixel"
  "estimate strict_libraries = flagging_estimate"
  by (simp_all add: strict_libraries_def)

lemma strict_nside_3: "order t = 3 \<Longrightarrow> nside strict_libraries t = Inr 8"
  by (simp add: nside_def example_order2nside_def)

lemma strict_boundaries_ring:
  "boundaries strict_libraries 8 450 None = Inr ([0, pi / 2, pi, pi / 2], [0, 0, 0, pi / 2])"
  by (simp add: boundaries_def axes_boundaries_def np_transpose_3x4 sphere_vec2ang_def
      sphere_theta_def sphere_phi_def)

lemma strict_boundaries_nested:
  "boundaries strict_libraries 8 450 (Some True) =
     Inr ([pi / 2, pi / 2, pi / 2, pi / 2], [0, pi / 2, pi, 3 * pi / 2])"
  by (simp add: boundaries_def axes_boundaries_def np_transpose_3x4 sphere_vec2ang_def
      sphere_theta_def sphere_phi_def)

lemma strict_skycoord_galactic:
  "skycoord_corners strict_libraries (init 3 450 ''fits'' None None) =
     Inr \<lparr>sky_frame = ''galactic'', sky_lon = [0, 0, 0, pi / 2],
          sky_lat = [pi / 2, 0, - (pi / 2), 0]\<rparr>"
  by (simp add: skycoord_corners_def strict_nside_3 init_def strict_boundaries_ring
      strict_SkyCoord_def named_arrays_def)

lemma strict_skycoord_icrs:
  "skycoord_corners strict_libraries (init 3 450 ''fits'' (Some ''icrs'') None) =
     Inr \<lparr>sky_frame = ''icrs'', sky_lon = [0, 0, 0, pi / 2],
          sky_lat = [pi / 2, 0, - (pi / 2), 0]\<rparr>"
  by (simp add: skycoord_corners_def strict_nside_3 init_def strict_boundaries_ring
      strict_SkyCoord_def named_arrays_def)


lemma not_collinear_spread:
  "\<not> collinear [[0, pi / 2], [0, 0], [0, - (pi / 2)], [pi / 2, 0]]"
proof
  assume "collinear [[0, pi / 2], [0, 0], [0, - (pi / 2)], [pi / 2, 0]]"
  then have "cross [0, pi / 2] [0, 0] [pi / 2, 0] = 0"
    by (simp add: collinear_def)
  then show False by (simp add: cross_def)
qed

text \<open>With corners that span the plane the estimation succeeds.\<close>

lemma strict_apply_projection_spread:
  "apply_projection strict_libraries (init 3 450 ''fits'' None None) (1, 1) =
     Inr (Homography [[0, pi / 2], [0, 0], [0, - (pi / 2)], [pi / 2, 0]]
            (Int64Array [[511, 0], [511, 511], [0, 511], [0, 0]]))"
proof -
  have "dst (init 3 450 ''fits'' None None) = Int64Array [[511, 0], [511, 511], [0, 511], [0, 0]]"
    by (rule dst_512) (simp add: init_def)
  then show ?thesis
    by (simp add: apply_projection_def strict_skycoord_galactic scale_to_pixel_def np_array_def
        np_transpose_2x4 reshape_4x2 flagging_estimate_def not_collinear_spread)
qed

text \<open>The instance meets the contracts.\<close>

lemma strict_order2nside_spec: "order2nside_spec strict_libraries"
  by (simp add: order2nside_spec_def example_order2nside_def)

lemma strict_boundaries_spec: "boundaries_spec strict_libraries"
  by (simp add: boundaries_spec_def axes_boundaries_def shape_def np_transpose_3x4
      unit_vector_def power2_eq_square)

lemma unit_vector_bounds:
  assumes "unit_vector v"
  shows "- 1 \<le> v ! 2" and "v ! 2 \<le> 1"
proof -
  from assms obtain x y z where v: "v = [x, y, z]"
    by (auto simp: unit_vector_def length_Suc_conv numeral_3_eq_3)
  with assms have "x\<^sup>2 + y\<^sup>2 + z\<^sup>2 = 1" by (simp add: unit_vector_def)
  then have "z\<^sup>2 \<le> 1" using zero_le_power2 [of x] zero_le_power2 [of y] by linarith
  then have "\<bar>z\<bar> \<le> 1" using abs_le_square_iff [of z 1] by simp
  then show "- 1 \<le> v ! 2" and "v ! 2 \<le> 1" using v by simp_all
qed

lemma colatitude_sphere_theta: "unit_vector v \<Longrightarrow> colatitude (sphere_theta v)"
  using unit_vector_bounds [of v]
  by (simp add: colatitude_def sphere_theta_def arccos_lbound arccos_ubound)

lemma ratio_bounds:
  fixes x y :: real
  shows "\<bar>x / sqrt (x\<^sup>2 + y\<^sup>2)\<bar> \<le> 1"
proof (cases "x = 0 \<and> y = 0")
  case True
  then show ?thesis by simp
next
  case False
  then have pos: "0 < sqrt (x\<^sup>2 + y\<^sup>2)"
    by (simp add: sum_power2_gt_zero_iff)
  have "\<bar>x\<bar> \<le> sqrt (x\<^sup>2 + y\<^sup>2)"
    by (rule real_le_rsqrt) simp
  with pos show ?thesis by simp
qed

lemma ratio_strict:
  fixes x y :: real
  assumes "y \<noteq> 0"
  shows "\<bar>x / sqrt (x\<^sup>2 + y\<^sup>2)\<bar> < 1"
proof -
  have pos: "0 < sqrt (x\<^sup>2 + y\<^sup>2)"
    using assms by (simp add: sum_power2_gt_zero_iff)
  have "x\<^sup>2 < x\<^sup>2 + y\<^sup>2" using assms by simp
  then have "sqrt (x\<^sup>2) < sqrt (x\<^sup>2 + y\<^sup>2)" by (simp only: real_sqrt_less_iff)
  then have "\<bar>x\<bar> < sqrt (x\<^sup>2 + y\<^sup>2)" by simp
  with pos show ?thesis by simp
qed

lemma abs_bound: "\<bar>c::real\<bar> \<le> 1 \<Longrightarrow> - 1 \<le> c \<and> c \<le> 1"
  by arith

lemma abs_strict_bound: "\<bar>c::real\<bar> < 1 \<Longrightarrow> - 1 < c \<and> c < 1"
  by arith

lemma longitude_sphere_phi: "longitude (sphere_phi v)"
proof -
  let ?c = "v ! 0 / sqrt ((v ! 0)\<^sup>2 + (v ! 1)\<^sup>2)"
  have b: "- 1 \<le> ?c" "?c \<le> 1"
    using abs_bound [OF ratio_bounds [of "v ! 0" "v ! 1"]] by blast+
  have lo: "0 \<le> arccos ?c" and hi: "arccos ?c \<le> pi"
    using b by (simp_all add: arccos_lbound arccos_ubound)
  show ?thesis
  proof (cases "v ! 1 < 0")
    case True
    then have "v ! 1 \<noteq> 0" by simp
    then have "\<bar>?c\<bar> < 1" by (rule ratio_strict)
    then have "- 1 < ?c \<and> ?c < 1" by (rule abs_strict_bound)
    then have "0 < arccos ?c" using arccos_lt_bounded [of ?c] by blast
    with hi True show ?thesis by (simp add: longitude_def sphere_phi_def)
  next
    case False
    from hi pi_gt_zero have "arccos ?c < 2 * pi" by linarith
    with lo False pi_gt_zero show ?thesis by (simp add: longitude_def sphere_phi_def)
  qed
qed

lemma strict_vec2ang_spec: "vec2ang_spec strict_libraries"
  by (auto simp: vec2ang_spec_def sphere_vec2ang_def list_all_iff unit_vector_def
      colatitude_sphere_theta longitude_sphere_phi)


section \<open>The claims\<close>

text \<open>
  Claim C1 says that for each of the frames icrs, galactic and ecliptic
  \<^verbatim>\<open>skycoord_corners\<close> returns sky coordinates: built from \<open>l = phi\<close> and
  \<open>b = \<pi>/2 - theta\<close> for galactic, from \<open>ra = phi\<close> and \<open>dec = \<pi>/2 - theta\<close>, tagged
  with the frame, for the other two. The code does not do this for ecliptic. There it
  takes \<open>(theta, phi)\<close> from \<^verbatim>\<open>boundaries(nside, ipix)\<close> and hands the constructor
  \<^verbatim>\<open>ra\<close>, \<^verbatim>\<open>dec\<close> and the frame name \<^verbatim>\<open>ecliptic\<close> as it stands; a constructor that
  refuses this call, as the one of astropy does, makes the property raise what the
  constructor raises, and no coordinates are returned.
\<close>

theorem skycoord_corners_ecliptic:
  assumes "frame t = ''ecliptic''"
    and "nside L t = Inr n"
    and "boundaries L n (ipix t) None = Inr (theta, phi)"
    and "SkyCoord L [(''ra'', Array phi), (''dec'', Array (map (\<lambda>x. pi / 2 - x) theta)),
                     (''unit'', Str ''radian''), (''frame'', Str ''ecliptic'')] = Inl e"
  shows "skycoord_corners L t = Inl e"
  using assms by (simp add: skycoord_corners_def)

theorem skycoord_corners_ecliptic_witness:
  "frame (init 3 450 ''fits'' (Some ''ecliptic'') None) = ''ecliptic'' \<and>
   nside strict_libraries (init 3 450 ''fits'' (Some ''ecliptic'') None) = Inr 8 \<and>
   boundaries strict_libraries 8 (ipix (init 3 450 ''fits'' (Some ''ecliptic'') None)) None =
     Inr ([0, pi / 2, pi, pi / 2], [0, 0, 0, pi / 2]) \<and>
   strict_SkyCoord [(''ra'', Array [0, 0, 0, pi / 2]),
                    (''dec'', Array (map (\<lambda>x. pi / 2 - x) [0, pi / 2, pi, pi / 2])),
                    (''unit'', Str ''radian''), (''frame'', Str ''ecliptic'')] =
     Inl (LibraryError ''frame'') \<and>
   skycoord_corners strict_libraries (init 3 450 ''fits'' (Some ''ecliptic'') None) =
     Inl (LibraryError ''frame'')"
proof -
  let ?t = "init 3 450 ''fits'' (Some ''ecliptic'') None"
  have f: "frame ?t = ''ecliptic''"
    by (simp add: init_def)
  have n: "nside strict_libraries ?t = Inr 8"
    by (simp add: strict_nside_3 init_def)
  have b: "boundaries strict_libraries 8 (ipix ?t) None =
             Inr ([0, pi / 2, pi, pi / 2], [0, 0, 0, pi / 2])"
    by (simp add: strict_boundaries_ring init_def)
  have s: "SkyCoord strict_libraries
             [(''ra'', Array [0, 0, 0, pi / 2]),
              (''dec'', Array (map (\<lambda>x. pi / 2 - x) [0, pi / 2, pi, pi / 2])),
              (''unit'', Str ''radian''), (''frame'', Str ''ecliptic'')] =
           Inl (LibraryError ''frame'')"
    by (simp add: strict_SkyCoord_def)
  from skycoord_corners_ecliptic [OF f n b s] f n b s show ?thesis by simp
qed

text \<open>
  Claim C2. For two instances \<open>a\<close> and \<open>b\<close> of \<^verbatim>\<open>HipsTileMeta\<close>, \<^verbatim>\<open>a == b\<close> returns
  true exactly when they agree on order, ipix, file_format and tile_width, and false
  otherwise; the frame plays no part, so an instance equals its copy with any other
  frame.
\<close>

theorem eq_iff_four_fields:
  "eq a (attrs b) =
     Inr (order a = order b \<and> ipix a = ipix b \<and> file_format a = file_format b \<and>
          tile_width a = tile_width b)
   \<and> eq a (attrs (a\<lparr>frame := f\<rparr>)) = Inr True"
  by (simp add: eq_def getattr_attrs)

theorem eq_iff_four_fields_witness:
  "eq (init 3 450 ''fits'' (Some ''galactic'') None)
      (attrs (init 3 450 ''fits'' (Some ''icrs'') None)) = Inr True \<and>
   eq (init 3 450 ''fits'' None None) (attrs (init 3 451 ''fits'' None None)) = Inr False"
  using
    eq_iff_four_fields [of "init 3 450 ''fits'' (Some ''galactic'') None"
      "init 3 450 ''fits'' (Some ''icrs'') None"]
    eq_iff_four_fields [of "init 3 450 ''fits'' None None" "init 3 451 ''fits'' None None"]
  by (simp add: init_def)




text \<open>
  Claim C4. For a tile with \<open>order \<ge> 0\<close>, \<^verbatim>\<open>nside\<close> is the integer \<open>2 ^ order\<close>. The
  property hands \<^verbatim>\<open>order\<close> to \<^verbatim>\<open>healpy.order2nside\<close> and returns what it gets, so
  this holds for every library that meets \<open>order2nside_spec\<close>.
\<close>

theorem nside_power_of_two:
  assumes "order2nside_spec L" and "0 \<le> order t"
  shows "nside L t = Inr (2 ^ nat (order t))"
proof -
  from assms(1) have "hp_order2nside L (int (nat (order t))) = Inr (2 ^ nat (order t))"
    unfolding order2nside_spec_def by blast
  with assms(2) show ?thesis by (simp add: nside_def)
qed

theorem nside_power_of_two_witness:
  "order2nside_spec example_libraries \<and> 0 \<le> order (init 3 450 ''fits'' None None) \<and>
   nside example_libraries (init 3 450 ''fits'' None None) = Inr 8"
proof -
  have h: "0 \<le> order (init 3 450 ''fits'' None None)"
    by (simp add: init_def)
  have "nat (order (init 3 450 ''fits'' None None)) = 3"
    by (simp add: init_def)
  with nside_power_of_two [OF example_order2nside_spec h] example_order2nside_spec h
  show ?thesis by simp
qed

text \<open>
  Claim C5, as first stated: for every tile width \<open>w\<close>, \<^verbatim>\<open>dst\<close> is exactly the array
  \<open>[(w-1, 0), (w-1, w-1), (0, w-1), (0, 0)]\<close>. It fails for \<open>w - 1\<close> from \<open>2\<^sup>6\<^sup>3\<close> to
  \<open>2\<^sup>6\<^sup>4 - 1\<close>: there the array is of type \<^verbatim>\<open>float64\<close> and \<open>w - 1\<close> is rounded. For
  \<open>w = 2\<^sup>6\<^sup>3 + 2\<close> the entries are \<open>2\<^sup>6\<^sup>3\<close>, not \<open>2\<^sup>6\<^sup>3 + 1\<close>.
\<close>

theorem dst_quad_counterexample:
  "dst \<lparr>order = 3, ipix = 450, file_format = ''fits'', frame = ''galactic'',
        tile_width = 9223372036854775810\<rparr> =
     Float64Array [[9223372036854775808, 0], [9223372036854775808, 9223372036854775808],
                   [0, 9223372036854775808], [0, 0]] \<and>
   entries (dst \<lparr>order = 3, ipix = 450, file_format = ''fits'', frame = ''galactic'',
        tile_width = 9223372036854775810\<rparr>) \<noteq>
     [[9223372036854775810 - 1, 0], [9223372036854775810 - 1, 9223372036854775810 - 1],
      [0, 9223372036854775810 - 1], [0, 0]]"
  by (simp add: dst_cases int_dtype_def float64_2_63 entries_def)

text \<open>
  Claim C5, amended. For a tile of width \<open>w\<close> with \<open>w - 1\<close> in the range of a signed 64-bit
  integer, \<^verbatim>\<open>dst\<close> is exactly the integer array of four rows of two
  \<open>[(w-1, 0), (w-1, w-1), (0, w-1), (0, 0)]\<close>, in this order; for \<open>w = 512\<close> it is
  \<open>[(511, 0), (511, 511), (0, 511), (0, 0)]\<close>. With \<open>w - 1\<close> below \<open>-2\<^sup>6\<^sup>3\<close> or from
  \<open>2\<^sup>6\<^sup>4\<close> on, the array holds the same four rows as Python integers. With \<open>w - 1\<close>
  from \<open>2\<^sup>6\<^sup>3\<close> to \<open>2\<^sup>6\<^sup>4 - 1\<close> it is a \<^verbatim>\<open>float64\<close> array with \<open>w - 1\<close> rounded to
  the nearest float.
\<close>

theorem dst_quad:
  "(- (2 ^ 63) \<le> tile_width t - 1 \<and> tile_width t - 1 < 2 ^ 63 \<longrightarrow>
      dst t = Int64Array [[tile_width t - 1, 0], [tile_width t - 1, tile_width t - 1],
                          [0, tile_width t - 1], [0, 0]]) \<and>
   (tile_width t - 1 < - (2 ^ 63) \<or> 2 ^ 64 \<le> tile_width t - 1 \<longrightarrow>
      dst t = ObjectArray [[tile_width t - 1, 0], [tile_width t - 1, tile_width t - 1],
                           [0, tile_width t - 1], [0, 0]]) \<and>
   (2 ^ 63 \<le> tile_width t - 1 \<and> tile_width t - 1 < 2 ^ 64 \<longrightarrow>
      dst t = Float64Array
                [[float64_of_int (tile_width t - 1), 0],
                 [float64_of_int (tile_width t - 1), float64_of_int (tile_width t - 1)],
                 [0, float64_of_int (tile_width t - 1)], [0, 0]]) \<and>
   (tile_width t - 1 < 2 ^ 63 \<or> 2 ^ 64 \<le> tile_width t - 1 \<longrightarrow>
      entries (dst t) =
        [[real_of_int (tile_width t - 1), 0],
         [real_of_int (tile_width t - 1), real_of_int (tile_width t - 1)],
         [0, real_of_int (tile_width t - 1)], [0, 0]]) \<and>
   dst (t\<lparr>tile_width := 512\<rparr>) = Int64Array [[511, 0], [511, 511], [0, 511], [0, 0]]"
  by (auto simp: dst_cases int_dtype_def entries_def Let_def)

theorem dst_quad_witness:
  "dst (init 3 450 ''fits'' None None) = Int64Array [[511, 0], [511, 511], [0, 511], [0, 0]] \<and>
   dst (init 3 450 ''fits'' None (Some 1)) = Int64Array [[0, 0], [0, 0], [0, 0], [0, 0]] \<and>
   dst (init 3 450 ''fits'' None (Some 18446744073709551617)) =
     ObjectArray [[18446744073709551616, 0], [18446744073709551616, 18446744073709551616],
                  [0, 18446744073709551616], [0, 0]] \<and>
   dst (init 3 450 ''fits'' None (Some 9223372036854775810)) =
     Float64Array [[9223372036854775808, 0], [9223372036854775808, 9223372036854775808],
                   [0, 9223372036854775808], [0, 0]]"
  using dst_quad [of "init 3 450 ''fits'' None None"]
    dst_quad [of "init 3 450 ''fits'' None (Some 1)"]
    dst_quad [of "init 3 450 ''fits'' None (Some 18446744073709551617)"]
    dst_quad [of "init 3 450 ''fits'' None (Some 9223372036854775810)"]
  by (simp add: init_def float64_2_63)

text \<open>
  Claim C6. For \<open>nside\<close> a power of two and a pixel index in \<open>[0, 12 nside\<^sup>2)\<close>,
  \<^verbatim>\<open>boundaries(nside, pix, nest)\<close> asks healpy for the corners of the pixel, with the
  ordering flag \<^verbatim>\<open>nest\<close> as given and false when omitted, turns the three rows of four
  it gets into four unit vectors (x, y, z), converts them to angles, and returns the pair
  \<open>(theta, phi)\<close>: four colatitudes in \<open>[0, \<pi>]\<close> and four longitudes in \<open>[0, 2\<pi>)\<close>.
  What healpy returns is taken from \<open>boundaries_spec\<close> and \<open>vec2ang_spec\<close>.
\<close>

theorem boundaries_angles:
  assumes "boundaries_spec L" and "vec2ang_spec L" and "0 \<le> pix" and "pix < 12 * (2 ^ k)\<^sup>2"
  shows "\<exists>vs theta phi.
           hp_boundaries L (2 ^ k) pix (case nest of None \<Rightarrow> False | Some b \<Rightarrow> b) = Inr vs \<and>
           np_transpose vs = map (\<lambda>j. [vs ! 0 ! j, vs ! 1 ! j, vs ! 2 ! j]) [0..<4] \<and>
           list_all unit_vector (np_transpose vs) \<and>
           hp_vec2ang L (np_transpose vs) = Inr (theta, phi) \<and>
           boundaries L (2 ^ k) pix nest = Inr (theta, phi) \<and>
           length theta = 4 \<and> length phi = 4 \<and>
           list_all colatitude theta \<and> list_all longitude phi"
proof -
  let ?nest = "case nest of None \<Rightarrow> False | Some b \<Rightarrow> b"
  from assms(1,3,4) obtain vs where
    vs: "hp_boundaries L (2 ^ k) pix ?nest = Inr vs" "shape vs (3, 4)"
        "list_all unit_vector (np_transpose vs)"
    unfolding boundaries_spec_def by blast
  have tr: "np_transpose vs = map (\<lambda>j. [vs ! 0 ! j, vs ! 1 ! j, vs ! 2 ! j]) [0..<4]"
    using vs(2) by (rule np_transpose_shape_3x4)
  then have len: "length (np_transpose vs) = 4" by simp
  from assms(2) vs(3) obtain theta phi where
    ang: "hp_vec2ang L (np_transpose vs) = Inr (theta, phi)"
         "length theta = length (np_transpose vs)" "length phi = length (np_transpose vs)"
         "list_all colatitude theta" "list_all longitude phi"
    unfolding vec2ang_spec_def by blast
  have "boundaries L (2 ^ k) pix nest = Inr (theta, phi)"
    by (simp add: boundaries_def vs(1) ang(1))
  with vs tr ang len show ?thesis by auto
qed

theorem boundaries_angles_witness:
  "boundaries_spec example_libraries \<and> vec2ang_spec example_libraries \<and>
   (0::int) \<le> 450 \<and> (450::int) < 12 * (2 ^ 3)\<^sup>2 \<and>
   boundaries example_libraries (2 ^ 3) 450 (Some True) =
     Inr ([pi / 2, pi / 2, pi / 2, pi / 2], [0, 0, 0, 0]) \<and>
   list_all colatitude [pi / 2, pi / 2, pi / 2, pi / 2] \<and> list_all longitude [0, 0, 0, 0]"
proof -
  have h3: "(0::int) \<le> 450" and h4: "(450::int) < 12 * (2 ^ 3)\<^sup>2"
    by simp_all
  from boundaries_angles [OF example_boundaries_spec example_vec2ang_spec h3 h4, of "Some True"]
  obtain theta phi where
    r: "boundaries example_libraries (2 ^ 3) 450 (Some True) = Inr (theta, phi)"
       "list_all colatitude theta" "list_all longitude phi"
    by blast
  have "boundaries example_libraries (2 ^ 3) 450 (Some True) =
          Inr ([pi / 2, pi / 2, pi / 2, pi / 2], [0, 0, 0, 0])"
    using example_boundaries_8_450 [of "Some True"] by simp
  with r example_boundaries_spec example_vec2ang_spec h3 h4 show ?thesis by simp
qed

text \<open>
  Claim C7. \<^verbatim>\<open>filename\<close> is \<^verbatim>\<open>Npix\<close>, then the decimal rendering of \<^verbatim>\<open>ipix\<close> (a
  string that reads back as \<^verbatim>\<open>ipix\<close>), then a dot, then \<^verbatim>\<open>file_format\<close>; for
  \<open>ipix = 450\<close> and format \<^verbatim>\<open>fits\<close> it is \<^verbatim>\<open>Npix450.fits\<close>.
\<close>

theorem filename_concat:
  "filename t = ''Npix'' @ str_int (ipix t) @ ''.'' @ file_format t \<and>
   int_of_str (str_int (ipix t)) = ipix t \<and>
   filename (t\<lparr>ipix := 450, file_format := ''fits''\<rparr>) = ''Npix450.fits''"
  by (simp add: filename_def int_of_str_str_int str_int_450)

theorem filename_concat_witness:
  "filename (init 3 450 ''fits'' None None) = ''Npix450.fits'' \<and>
   filename (init 0 7 ''jpg'' None None) = ''Npix7.jpg''"
  using filename_concat [of "init 3 450 ''fits'' None None"]
    filename_concat [of "init 0 7 ''jpg'' None None"]
  by (simp add: init_def str_int_def str_nat.simps digit_char_def)

text \<open>
  Claim C8. Whatever the five fields of a tile are, \<^verbatim>\<open>path\<close> is the same relative
  directory \<^verbatim>\<open>hips/tiles/tests/data\<close>, and \<^verbatim>\<open>full_path\<close> is that directory joined with
  \<^verbatim>\<open>filename\<close>.
\<close>

theorem path_fixed:
  "path t = Path [''hips'', ''tiles'', ''tests'', ''data''] \<and>
   path t = path t' \<and>
   full_path t = truediv (path t) (filename t) \<and>
   full_path t = Path [''hips'', ''tiles'', ''tests'', ''data'', filename t]"
  by (simp add: path_def full_path_def)

theorem path_fixed_witness:
  "path (init 3 450 ''fits'' None None) = path (init 0 7 ''jpg'' (Some ''icrs'') (Some 256)) \<and>
   full_path (init 3 450 ''fits'' None None) =
     Path [''hips'', ''tiles'', ''tests'', ''data'', ''Npix450.fits'']"
  using path_fixed [of "init 3 450 ''fits'' None None" "init 0 7 ''jpg'' (Some ''icrs'') (Some 256)"]
  by (simp add: path_def filename_def init_def str_int_450)

text \<open>
  Claim C10, as first stated: comparing a tile with any object that lacks one of order,
  ipix, file_format, tile_width raises an attribute error rather than returning false.
  It fails: an object whose order differs from the tile's and that has no ipix compares
  false, because the chain of \<^verbatim>\<open>and\<close> stops before ipix is read.
\<close>

theorem eq_missing_attribute_counterexample:
  "map_of [(''order'', PyInt 4)] ''ipix'' = None \<and>
   eq \<lparr>order = 3, ipix = 450, file_format = ''fits'', frame = ''galactic'', tile_width = 512\<rparr>
      [(''order'', PyInt 4)] = Inr False"
  by (simp add: eq_def getattr_def)

text \<open>
  Claim C10, amended. \<^verbatim>\<open>__eq__\<close> reads order, ipix, file_format and tile_width from
  the other operand in this order and compares each with \<^verbatim>\<open>==\<close>, whatever the type of
  the value, with no type check and no fallback. It stops at the first of the four that
  the other operand lacks or holds with an unequal value. If the operand lacks it, the
  comparison raises an attribute error that names this attribute; if the operand holds
  it with an unequal value, the comparison returns false, and the attributes after it
  are not read, missing or not. If all four are there and equal the comparison returns
  true. So an operand without order always raises, and an operand that lacks a later
  attribute raises exactly when every attribute before the missing one is there and
  equal.
\<close>

theorem eq_missing_attribute:
  "(lacks other ''order'' \<longrightarrow> eq self other = Inl (AttributeError ''order'')) \<and>
   (has_unequal other ''order'' (PyInt (order self)) \<longrightarrow> eq self other = Inr False) \<and>
   (has_equal other ''order'' (PyInt (order self)) \<longrightarrow>
      (lacks other ''ipix'' \<longrightarrow> eq self other = Inl (AttributeError ''ipix'')) \<and>
      (has_unequal other ''ipix'' (PyInt (ipix self)) \<longrightarrow> eq self other = Inr False) \<and>
      (has_equal other ''ipix'' (PyInt (ipix self)) \<longrightarrow>
         (lacks other ''file_format'' \<longrightarrow> eq self other = Inl (AttributeError ''file_format'')) \<and>
         (has_unequal other ''file_format'' (PyStr (file_format self)) \<longrightarrow>
            eq self other = Inr False) \<and>
         (has_equal other ''file_format'' (PyStr (file_format self)) \<longrightarrow>
            (lacks other ''tile_width'' \<longrightarrow> eq self other = Inl (AttributeError ''tile_width'')) \<and>
            (has_unequal other ''tile_width'' (PyInt (tile_width self)) \<longrightarrow>
               eq self other = Inr False) \<and>
            (has_equal other ''tile_width'' (PyInt (tile_width self)) \<longrightarrow>
               eq self other = Inr True))))"
  by (auto simp: eq_def getattr_def lacks_def has_equal_def has_unequal_def split: option.splits)

theorem eq_missing_attribute_witness:
  "eq (init 3 450 ''fits'' None None) [] = Inl (AttributeError ''order'') \<and>
   eq (init 3 450 ''fits'' None None) [(''order'', PyInt 3)] = Inl (AttributeError ''ipix'') \<and>
   eq (init 3 450 ''fits'' None None) [(''order'', PyInt 4)] = Inr False \<and>
   eq (init 3 450 ''fits'' None None) [(''order'', PyNone)] = Inr False \<and>
   eq (init 3 450 ''fits'' None None) [(''order'', PyFloat 3), (''ipix'', PyInt 450)] =
     Inl (AttributeError ''file_format'') \<and>
   eq (init 3 450 ''fits'' None None)
      [(''ipix'', PyInt 450), (''order'', PyInt 3), (''file_format'', PyStr ''fits'')] =
     Inl (AttributeError ''tile_width'') \<and>
   eq (init 3 450 ''fits'' None None)
      [(''order'', PyInt 3), (''ipix'', PyInt 450), (''file_format'', PyStr ''jpg'')] =
     Inr False"
proof -
  let ?t = "init 3 450 ''fits'' None None"
  have t: "order ?t = 3" "ipix ?t = 450" "file_format ?t = ''fits''" "tile_width ?t = 512"
    by (simp_all add: init_def)
  note defs = lacks_def has_equal_def has_unequal_def py_eq_def number_def t
  have "eq ?t [] = Inl (AttributeError ''order'')"
    using eq_missing_attribute [of "[]" ?t] by (simp add: defs)
  moreover have "eq ?t [(''order'', PyInt 3)] = Inl (AttributeError ''ipix'')"
    using eq_missing_attribute [of "[(''order'', PyInt 3)]" ?t] by (simp add: defs)
  moreover have "eq ?t [(''order'', PyInt 4)] = Inr False"
    using eq_missing_attribute [of "[(''order'', PyInt 4)]" ?t] by (simp add: defs)
  moreover have "eq ?t [(''order'', PyNone)] = Inr False"
    using eq_missing_attribute [of "[(''order'', PyNone)]" ?t] by (simp add: defs)
  moreover have "eq ?t [(''order'', PyFloat 3), (''ipix'', PyInt 450)] =
      Inl (AttributeError ''file_format'')"
    using eq_missing_attribute [of "[(''order'', PyFloat 3), (''ipix'', PyInt 450)]" ?t]
    by (simp add: defs)
  moreover have
    "eq ?t [(''ipix'', PyInt 450), (''order'', PyInt 3), (''file_format'', PyStr ''fits'')] =
       Inl (AttributeError ''tile_width'')"
    using eq_missing_attribute
      [of "[(''ipix'', PyInt 450), (''order'', PyInt 3), (''file_format'', PyStr ''fits'')]" ?t]
    by (simp add: defs)
  moreover have
    "eq ?t [(''order'', PyInt 3), (''ipix'', PyInt 450), (''file_format'', PyStr ''jpg'')] =
       Inr False"
    using eq_missing_attribute
      [of "[(''order'', PyInt 3), (''ipix'', PyInt 450), (''file_format'', PyStr ''jpg'')]" ?t]
    by (simp add: defs)
  ultimately show ?thesis by simp
qed

end
